theory Spec2Isabelle
  imports Complex_Main "HOL-Library.AList" "HOL-Library.Char_ord" "HOL-Library.List_Lexorder"
begin

section \<open>Python string primitives\<close>

text \<open>
  Python strings are modelled as \<^typ>\<open>string\<close>; the model covers ASCII text, where
  \<^verbatim>\<open>\d\<close>, \<^verbatim>\<open>\s\<close>, \<^verbatim>\<open>str.lower\<close>, \<^verbatim>\<open>str.isupper\<close> and
  \<^verbatim>\<open>str.title\<close> are decided by the character tables below.
\<close>

definition is_digit :: "char \<Rightarrow> bool" where
  "is_digit c = (c \<in> set ''0123456789'')"

definition is_lower_char :: "char \<Rightarrow> bool" where
  "is_lower_char c = (c \<in> set ''abcdefghijklmnopqrstuvwxyz'')"

definition is_upper_char :: "char \<Rightarrow> bool" where
  "is_upper_char c = (c \<in> set ''ABCDEFGHIJKLMNOPQRSTUVWXYZ'')"

definition is_alpha :: "char \<Rightarrow> bool" where
  "is_alpha c = (is_lower_char c \<or> is_upper_char c)"

text \<open>The ASCII characters for which \<^verbatim>\<open>str.isspace\<close> holds (also the class \<^verbatim>\<open>\s\<close>).\<close>

definition is_space :: "char \<Rightarrow> bool" where
  "is_space c = (c \<in> set [CHR 0x09, CHR 0x0A, CHR 0x0B, CHR 0x0C, CHR 0x0D,
                           CHR 0x1C, CHR 0x1D, CHR 0x1E, CHR 0x1F, CHR 0x20])"

definition py_strip :: "string \<Rightarrow> string" where
  "py_strip s = rev (dropWhile is_space (rev (dropWhile is_space s)))"

definition startswith :: "string \<Rightarrow> string \<Rightarrow> bool" where
  "startswith s p = (take (length p) s = p)"

text \<open>\<^verbatim>\<open>s.lstrip("+")\<close>: every leading plus sign is removed.\<close>

definition lstrip_plus :: "string \<Rightarrow> string" where
  "lstrip_plus s = dropWhile (\<lambda>c. c = CHR ''+'') s"


section \<open>utils/phone_formatter.py\<close>

definition MOBILE_PREFIXES :: "string list" where
  "MOBILE_PREFIXES = [''10'', ''11'', ''12'', ''13'', ''14'', ''16'', ''17'', ''18'', ''19'']"

definition LANDLINE_PREFIXES :: "string list" where
  "LANDLINE_PREFIXES = [''3'', ''4'', ''5'', ''6'', ''7'', ''8'', ''9'']"

definition COUNTRY_CODE :: string where
  "COUNTRY_CODE = ''60''"

definition clean_phone_number :: "string \<Rightarrow> string" where
  "clean_phone_number phone =
     (if phone = [] then []
      else let has_plus = startswith (py_strip phone) ''+'';
               cleaned = filter is_digit phone
           in if has_plus then CHR ''+'' # cleaned else cleaned)"

text \<open>\<^verbatim>\<open>any(cleaned.startswith(prefix) for prefix in PREFIXES)\<close>\<close>

definition has_prefix_in :: "string list \<Rightarrow> string \<Rightarrow> bool" where
  "has_prefix_in prefixes s = list_ex (startswith s) prefixes"

text \<open>\<^verbatim>\<open>clean_phone_number(phone).lstrip("+")\<close>, the first step of every function below.\<close>

definition cleaned_digits :: "string \<Rightarrow> string" where
  "cleaned_digits phone = lstrip_plus (clean_phone_number phone)"

definition is_malaysian_number :: "string \<Rightarrow> bool" where
  "is_malaysian_number phone =
     (let cleaned = cleaned_digits phone in
      if startswith cleaned ''60'' then True
      else if startswith cleaned ''0'' \<and>
              (has_prefix_in MOBILE_PREFIXES (drop 1 cleaned) \<or>
               has_prefix_in LANDLINE_PREFIXES (drop 1 cleaned)) then True
      else if has_prefix_in MOBILE_PREFIXES cleaned then True
      else False)"

text \<open>
  The digits that \<^verbatim>\<open>format_malaysian_phone\<close> and \<^verbatim>\<open>validate_malaysian_phone\<close>
  both work on: plus signs off, then the country code off, then one leading zero off.
\<close>

definition strip_country_and_zero :: "string \<Rightarrow> string" where
  "strip_country_and_zero phone =
     (let cleaned = cleaned_digits phone;
          cleaned = (if startswith cleaned ''60'' then drop 2 cleaned else cleaned);
          cleaned = (if startswith cleaned ''0'' then drop 1 cleaned else cleaned)
      in cleaned)"

definition format_malaysian_phone :: "string \<Rightarrow> bool \<Rightarrow> string option" where
  "format_malaysian_phone phone include_country_code =
     (if phone = [] then None
      else let cleaned = strip_country_and_zero phone in
        if length cleaned < 8 \<or> length cleaned > 10 then None
        else let is_mobile = has_prefix_in MOBILE_PREFIXES cleaned;
                 is_landline = has_prefix_in LANDLINE_PREFIXES cleaned in
          if \<not> is_mobile \<and> \<not> is_landline then None
          else if include_country_code then
            (if is_mobile then
               (if length cleaned \<ge> 9
                then Some (''+60 '' @ take 2 cleaned @ ''-'' @ take 3 (drop 2 cleaned) @ '' '' @ drop 5 cleaned)
                else Some (''+60 '' @ take 2 cleaned @ ''-'' @ drop 2 cleaned))
             else
               (if length cleaned \<ge> 8
                then Some (''+60 '' @ take 1 cleaned @ ''-'' @ take 4 (drop 1 cleaned) @ '' '' @ drop 5 cleaned)
                else Some (''+60 '' @ take 1 cleaned @ ''-'' @ drop 1 cleaned)))
          else
            (if is_mobile then
               (if length cleaned \<ge> 9
                then Some (''0'' @ take 2 cleaned @ ''-'' @ take 3 (drop 2 cleaned) @ '' '' @ drop 5 cleaned)
                else Some (''0'' @ take 2 cleaned @ ''-'' @ drop 2 cleaned))
             else
               (if length cleaned \<ge> 8
                then Some (''0'' @ take 1 cleaned @ ''-'' @ take 4 (drop 1 cleaned) @ '' '' @ drop 5 cleaned)
                else Some (''0'' @ take 1 cleaned @ ''-'' @ drop 1 cleaned))))"

definition validate_malaysian_phone :: "string \<Rightarrow> bool \<times> string" where
  "validate_malaysian_phone phone =
     (if phone = [] then (False, ''Phone number is empty'')
      else let cleaned = strip_country_and_zero phone in
        if length cleaned < 8 then (False, ''Phone number is too short'')
        else if length cleaned > 10 then (False, ''Phone number is too long'')
        else if \<not> has_prefix_in MOBILE_PREFIXES cleaned \<and> \<not> has_prefix_in LANDLINE_PREFIXES cleaned
          then (False, ''Invalid Malaysian phone prefix. Mobile should start with 10, 11, 12, 13, 14, 16, 17, 18, 19'')
        else (True, ''Valid Malaysian phone number''))"

definition normalize_phone_for_comparison :: "string \<Rightarrow> string" where
  "normalize_phone_for_comparison phone =
     (if phone = [] then []
      else let cleaned = cleaned_digits phone in
        if \<not> startswith cleaned ''60'' then
          (if startswith cleaned ''0'' then ''60'' @ drop 1 cleaned else ''60'' @ cleaned)
        else cleaned)"


section \<open>More string primitives\<close>

definition lower_char :: "char \<Rightarrow> char" where
  "lower_char c =
     (case map_of (zip ''ABCDEFGHIJKLMNOPQRSTUVWXYZ'' ''abcdefghijklmnopqrstuvwxyz'') c of
        Some l \<Rightarrow> l | None \<Rightarrow> c)"

definition upper_char :: "char \<Rightarrow> char" where
  "upper_char c =
     (case map_of (zip ''abcdefghijklmnopqrstuvwxyz'' ''ABCDEFGHIJKLMNOPQRSTUVWXYZ'') c of
        Some u \<Rightarrow> u | None \<Rightarrow> c)"

definition py_lower :: "string \<Rightarrow> string" where
  "py_lower s = map lower_char s"

text \<open>\<^verbatim>\<open>str.isupper\<close>: at least one cased character, and no lower-case one.\<close>

definition py_isupper :: "string \<Rightarrow> bool" where
  "py_isupper s = (list_ex is_upper_char s \<and> \<not> list_ex is_lower_char s)"

text \<open>\<^verbatim>\<open>str.title\<close>: a letter that follows a letter is lower-cased, any other letter is
  upper-cased.\<close>

fun title_from :: "bool \<Rightarrow> string \<Rightarrow> string" where
  "title_from prev [] = []"
| "title_from prev (c # cs) =
     (if is_alpha c then (if prev then lower_char c else upper_char c) # title_from True cs
      else c # title_from False cs)"

definition py_title :: "string \<Rightarrow> string" where
  "py_title s = title_from False s"

text \<open>\<^verbatim>\<open>str.split()\<close> with no argument: the maximal runs of non-whitespace.\<close>

fun split_words :: "string \<Rightarrow> string \<Rightarrow> string list" where
  "split_words cur [] = (if cur = [] then [] else [cur])"
| "split_words cur (c # cs) =
     (if is_space c then (if cur = [] then split_words [] cs else cur # split_words [] cs)
      else split_words (cur @ [c]) cs)"

definition py_split :: "string \<Rightarrow> string list" where
  "py_split s = split_words [] s"

fun py_join :: "string \<Rightarrow> string list \<Rightarrow> string" where
  "py_join sep [] = []"
| "py_join sep [w] = w"
| "py_join sep (w # ws) = w @ sep @ py_join sep ws"

text \<open>\<^verbatim>\<open>p in s\<close> on strings.\<close>

fun contains :: "string \<Rightarrow> string \<Rightarrow> bool" where
  "contains [] p = (p = [])"
| "contains (c # cs) p = (startswith (c # cs) p \<or> contains cs p)"

text \<open>\<^verbatim>\<open>s.replace(old, "")\<close> for a non-empty \<open>old\<close>, scanning from the left.\<close>

function remove_all_sub :: "string \<Rightarrow> string \<Rightarrow> string" where
  "remove_all_sub old [] = []"
| "remove_all_sub old (c # cs) =
     (if old \<noteq> [] \<and> startswith (c # cs) old
      then remove_all_sub old (drop (length old) (c # cs))
      else c # remove_all_sub old cs)"
  by pat_completeness auto
termination
  by (relation "measure (\<lambda>(old, s). length s)") (auto simp: neq_Nil_conv)


section \<open>The regular expressions of services/spreadsheet\_service.py\<close>

text \<open>
  Each pattern is modelled by a matcher with the meaning of \<^verbatim>\<open>re.match\<close> (the pattern
  must match at the start of the string; \<^verbatim>\<open>$\<close> holds at the end, or before one final
  newline).
\<close>

definition email_local_char :: "char \<Rightarrow> bool" where
  "email_local_char c = (is_alpha c \<or> is_digit c \<or> c \<in> set ''._%+-'')"

definition email_domain_char :: "char \<Rightarrow> bool" where
  "email_domain_char c = (is_alpha c \<or> is_digit c \<or> c \<in> set ''.-'')"

text \<open>\<^verbatim>\<open>[a-zA-Z]{2,}\<close> with nothing after it: two letters are enough.\<close>

definition tld_open :: "string \<Rightarrow> bool" where
  "tld_open s = (2 \<le> length (takeWhile is_alpha s))"

text \<open>\<^verbatim>\<open>[a-zA-Z]{2,}$\<close>\<close>

definition tld_anchored :: "string \<Rightarrow> bool" where
  "tld_anchored s =
     (2 \<le> length (takeWhile is_alpha s) \<and>
      (dropWhile is_alpha s = [] \<or> dropWhile is_alpha s = [CHR 0x0A]))"

text \<open>\<^verbatim>\<open>[a-zA-Z0-9.-]+\.\<close> followed by the top-level domain: every dot that has a
  domain character before it is tried as the separating dot.\<close>

fun domain_then :: "(string \<Rightarrow> bool) \<Rightarrow> bool \<Rightarrow> string \<Rightarrow> bool" where
  "domain_then tld seen [] = False"
| "domain_then tld seen (c # cs) =
     ((seen \<and> c = CHR ''.'' \<and> tld cs) \<or> (email_domain_char c \<and> domain_then tld True cs))"

definition email_match :: "(string \<Rightarrow> bool) \<Rightarrow> string \<Rightarrow> bool" where
  "email_match tld s =
     (takeWhile email_local_char s \<noteq> [] \<and>
      (case dropWhile email_local_char s of
         [] \<Rightarrow> False
       | c # r \<Rightarrow> c = CHR ''@'' \<and> domain_then tld False r))"

text \<open>\<^verbatim>\<open>[a-zA-Z0-9._%+-]+@[a-zA-Z0-9.-]+\.[a-zA-Z]{2,}\<close>, as content detection uses it.\<close>

definition email_prefix_match :: "string \<Rightarrow> bool" where
  "email_prefix_match s = email_match tld_open s"

text \<open>The same pattern between \<^verbatim>\<open>^\<close> and \<^verbatim>\<open>$\<close>, as cleaning and validation use it.\<close>

definition email_full_match :: "string \<Rightarrow> bool" where
  "email_full_match s = email_match tld_anchored s"

definition phone_body_char :: "char \<Rightarrow> bool" where
  "phone_body_char c = (is_digit c \<or> is_space c \<or> c = CHR ''-'')"

text \<open>\<^verbatim>\<open>^\+?60[\d\s\-]+$\<close>\<close>

definition phone_pattern_my :: "string \<Rightarrow> bool" where
  "phone_pattern_my s =
     (let t = (if startswith s ''+'' then drop 1 s else s) in
      startswith t ''60'' \<and> drop 2 t \<noteq> [] \<and> list_all phone_body_char (drop 2 t))"

text \<open>\<^verbatim>\<open>^0\d[\d\s\-]+$\<close>\<close>

definition phone_pattern_local :: "string \<Rightarrow> bool" where
  "phone_pattern_local s =
     (startswith s ''0'' \<and> list_all is_digit (take 1 (drop 1 s)) \<and> drop 1 s \<noteq> [] \<and>
      drop 2 s \<noteq> [] \<and> list_all phone_body_char (drop 2 s))"

text \<open>\<^verbatim>\<open>^[\d\s\-\+\(\)]{8,}$\<close>\<close>

definition phone_pattern_general :: "string \<Rightarrow> bool" where
  "phone_pattern_general s =
     (8 \<le> length s \<and> list_all (\<lambda>c. is_digit c \<or> is_space c \<or> c \<in> set ''-+()'') s)"

definition phone_shape :: "string \<Rightarrow> bool" where
  "phone_shape s =
     (let t = py_strip s in
      phone_pattern_my t \<or> phone_pattern_local t \<or> phone_pattern_general t)"

text \<open>\<^verbatim>\<open>2 <= len(s.split()) <= 5 and re.match(r"^[a-zA-Z\s\.\'\-]+$", s)\<close>\<close>

definition name_like :: "string \<Rightarrow> bool" where
  "name_like s =
     (2 \<le> length (py_split s) \<and> length (py_split s) \<le> 5 \<and> s \<noteq> [] \<and>
      list_all (\<lambda>c. is_alpha c \<or> is_space c \<or> c \<in> set [CHR ''.'', CHR 0x27, CHR ''-'']) s)"


section \<open>Tabular datasets\<close>

text \<open>
  A cell of a pandas DataFrame is either missing (\<^verbatim>\<open>pd.isna\<close> holds: NaN or None) or a
  value, kept as the text \<^verbatim>\<open>str(value)\<close> that every function below reads it through.
  A row is the list of its cells by column name, in column order; a DataFrame is its
  column names and its rows, each with its index label (\<open>0, 1, 2, ...\<close> for a dataset
  that was just read). All rows of a DataFrame carry exactly its columns.
\<close>

datatype cell = NaN | Val string

type_synonym row = "(string \<times> cell) list"

record dataframe =
  df_columns :: "string list"
  df_rows :: "(nat \<times> row) list"

datatype py_error = KeyError string

text \<open>\<^verbatim>\<open>row[col]\<close> for a column of the frame, and \<^verbatim>\<open>row.get(col)\<close>, which is None (hence
  missing) for a name that is no column.\<close>

definition cell_at :: "row \<Rightarrow> string \<Rightarrow> cell" where
  "cell_at r c = (case map_of r c of Some v \<Rightarrow> v | None \<Rightarrow> NaN)"

definition column_cells :: "dataframe \<Rightarrow> string \<Rightarrow> cell list" where
  "column_cells df col = map (\<lambda>(idx, r). cell_at r col) (df_rows df)"

text \<open>\<^verbatim>\<open>series.dropna().tolist()\<close>, each value read through \<^verbatim>\<open>str\<close>.\<close>

fun dropna :: "cell list \<Rightarrow> string list" where
  "dropna [] = []"
| "dropna (NaN # cs) = dropna cs"
| "dropna (Val v # cs) = v # dropna cs"

text \<open>The dataset as \<^verbatim>\<open>read_spreadsheet\<close> returns it: the default index.\<close>

definition from_rows :: "string list \<Rightarrow> row list \<Rightarrow> dataframe" where
  "from_rows cols rs = \<lparr>df_columns = cols, df_rows = zip [0..<length rs] rs\<rparr>"

text \<open>\<^verbatim>\<open>df.empty\<close>: an axis of length 0.\<close>

definition df_empty :: "dataframe \<Rightarrow> bool" where
  "df_empty df = (df_rows df = [] \<or> df_columns df = [])"

text \<open>\<^verbatim>\<open>df[name] = df[...].apply(f)\<close>: a new column goes last, an existing one is
  overwritten in place.\<close>

definition assign_column :: "string \<Rightarrow> (row \<Rightarrow> cell) \<Rightarrow> dataframe \<Rightarrow> dataframe" where
  "assign_column name f df =
     \<lparr>df_columns = (if name \<in> set (df_columns df) then df_columns df else df_columns df @ [name]),
      df_rows = map (\<lambda>(idx, r). (idx, AList.update name (f r) r)) (df_rows df)\<rparr>"

text \<open>\<^verbatim>\<open>df.drop(columns=[name])\<close>\<close>

definition drop_column :: "string \<Rightarrow> dataframe \<Rightarrow> dataframe" where
  "drop_column name df =
     \<lparr>df_columns = removeAll name (df_columns df),
      df_rows = map (\<lambda>(idx, r). (idx, AList.delete name r)) (df_rows df)\<rparr>"


section \<open>config.py\<close>

definition COLUMN_MAPPINGS :: "(string \<times> string list) list" where
  "COLUMN_MAPPINGS =
     [(''name'', [''name'', ''full name'', ''contact name'', ''client name'', ''nama'',
                  ''customer name'', ''prospect name'']),
      (''phone'', [''phone'', ''mobile'', ''tel'', ''telephone'', ''handphone'', ''hp'',
                   ''contact number'', ''phone number'', ''no tel'', ''no telefon'']),
      (''email'', [''email'', ''e-mail'', ''email address'', ''emel'']),
      (''company'', [''company'', ''organization'', ''organisation'', ''syarikat'', ''business'',
                     ''firm'', ''company name'']),
      (''title'', [''title'', ''position'', ''designation'', ''role'', ''job title'', ''jawatan'']),
      (''industry'', [''industry'', ''sector'', ''industri'', ''business type'']),
      (''address'', [''address'', ''alamat'', ''location'', ''office address'']),
      (''notes'', [''notes'', ''remarks'', ''comments'', ''catatan'', ''description'']),
      (''source'', [''source'', ''lead source'', ''referral'', ''sumber'']),
      (''status'', [''status'', ''lead status'', ''stage'', ''pipeline stage''])]"


section \<open>SpreadsheetService.detect\_columns\<close>

record column_mapping =
  original_name :: string
  mapped_to :: "string option"
  confidence :: real
  sample_values :: "string list"

text \<open>Python truth of an optional string: neither None nor empty.\<close>

fun truthy :: "string option \<Rightarrow> bool" where
  "truthy None = False"
| "truthy (Some s) = (s \<noteq> [])"

text \<open>
  The share test \<^verbatim>\<open>count >= len(sample_strings) * 0.6\<close> is computed in double
  precision. For the 1 to 5 samples that \<^verbatim>\<open>detect_columns\<close> passes, the products are
  0.6, 1.2, 1.7999999999999998, 2.4 and 3.0, and an integer count reaches them exactly when
  \<open>5 * count \<ge> 3 * len\<close>.
\<close>

definition at_least_60_percent :: "nat \<Rightarrow> nat \<Rightarrow> bool" where
  "at_least_60_percent count n = (3 * n \<le> 5 * count)"

definition detect_by_content :: "column_mapping \<Rightarrow> string list \<Rightarrow> column_mapping" where
  "detect_by_content mapping sample_strings =
     (if sample_strings = [] then mapping
      else if at_least_60_percent (length (filter email_prefix_match sample_strings))
                (length sample_strings)
        then mapping\<lparr>mapped_to := Some ''email'', confidence := 0.9\<rparr>
      else if at_least_60_percent (length (filter phone_shape sample_strings))
                (length sample_strings)
        then mapping\<lparr>mapped_to := Some ''phone'', confidence := 0.85\<rparr>
      else if at_least_60_percent (length (filter name_like sample_strings))
                (length sample_strings)
        then mapping\<lparr>mapped_to := Some ''name'', confidence := 0.7\<rparr>
      else mapping)"

text \<open>The inner loop over one field's keywords: the first keyword that contains the
  header, or that the header contains, maps the column and ends the loop.\<close>

fun keyword_loop :: "string \<Rightarrow> string \<Rightarrow> string list \<Rightarrow> column_mapping \<Rightarrow> column_mapping" where
  "keyword_loop col_lower field_name [] mapping = mapping"
| "keyword_loop col_lower field_name (keyword # keywords) mapping =
     (if contains col_lower keyword \<or> contains keyword col_lower
      then mapping\<lparr>mapped_to := Some field_name,
                   confidence := (if col_lower = keyword then 0.95 else 0.8)\<rparr>
      else keyword_loop col_lower field_name keywords mapping)"

text \<open>The outer loop over the field table, left as soon as the column is mapped.\<close>

fun field_loop :: "string \<Rightarrow> (string \<times> string list) list \<Rightarrow> column_mapping \<Rightarrow> column_mapping" where
  "field_loop col_lower [] mapping = mapping"
| "field_loop col_lower ((field_name, keywords) # remaining) mapping =
     (let mapping' = keyword_loop col_lower field_name keywords mapping in
      if truthy (mapped_to mapping') then mapping' else field_loop col_lower remaining mapping')"

definition detect_column :: "dataframe \<Rightarrow> string \<Rightarrow> column_mapping" where
  "detect_column df col =
     (let col_lower = py_strip (py_lower col);
          samples = take 5 (dropna (column_cells df col));
          mapping = \<lparr>original_name = col, mapped_to = None, confidence = 0.0,
                     sample_values = samples\<rparr>;
          mapping = field_loop col_lower COLUMN_MAPPINGS mapping
      in if \<not> truthy (mapped_to mapping) \<and> samples \<noteq> []
         then detect_by_content mapping samples else mapping)"

definition detect_columns :: "dataframe \<Rightarrow> column_mapping list" where
  "detect_columns df = map (detect_column df) (df_columns df)"


section \<open>SpreadsheetService.\_clean\_name\<close>

definition honorifics :: "string list" where
  "honorifics = [''dr'', ''dr.'', ''dato'' @ [CHR 0x27], ''datuk'', ''tan sri'', ''tun'',
                 ''datin'', ''mr'', ''mrs'', ''ms'', ''prof'']"

definition clean_word :: "string \<Rightarrow> string" where
  "clean_word word =
     (if py_lower word \<in> set honorifics \<or> py_isupper word then word else py_title word)"

definition clean_name :: "cell \<Rightarrow> string option" where
  "clean_name name =
     (case name of
        NaN \<Rightarrow> None
      | Val v \<Rightarrow>
          (let cleaned_words = map clean_word (py_split (py_strip v))
           in if cleaned_words = [] then None else Some (py_join '' '' cleaned_words)))"


section \<open>Confirmed column mappings\<close>

text \<open>
  The caller's \<^verbatim>\<open>column_mappings\<close> dictionary, original column name to canonical field
  or None, in insertion order. \<^verbatim>\<open>{std: orig for orig, std in column_mappings.items() if std}\<close>
  keeps for each field the last original column mapped to it.
\<close>

type_synonym col_mappings = "(string \<times> string option) list"

definition std_columns :: "col_mappings \<Rightarrow> (string \<times> string) list" where
  "std_columns column_mappings =
     foldl (\<lambda>acc (orig, std). if truthy std then AList.update (the std) orig acc else acc)
       [] column_mappings"

definition bind_err :: "'e + 'a \<Rightarrow> ('a \<Rightarrow> 'e + 'b) \<Rightarrow> 'e + 'b" where
  "bind_err x f = (case x of Inl e \<Rightarrow> Inl e | Inr a \<Rightarrow> f a)"


section \<open>SpreadsheetService.validate\_data\<close>












section \<open>SpreadsheetService.deduplicate\<close>

record duplicate_group =
  group_key :: string
  group_value :: string
  group_count :: nat
  row_numbers :: "nat list"

definition phone_key :: "cell \<Rightarrow> string" where
  "phone_key x = (case x of NaN \<Rightarrow> [] | Val v \<Rightarrow> normalize_phone_for_comparison v)"

text \<open>\<^verbatim>\<open>str(x).lower().strip() if pd.notna(x) else ""\<close>, for the email and the name key.\<close>

definition text_key :: "cell \<Rightarrow> string" where
  "text_key x = (case x of NaN \<Rightarrow> [] | Val v \<Rightarrow> py_strip (py_lower v))"

text \<open>\<^verbatim>\<open>df[tmp] = df[src].apply(f)\<close>, with the KeyError of \<^verbatim>\<open>df[src]\<close>.\<close>

definition add_key_column ::
  "string \<Rightarrow> string \<Rightarrow> (cell \<Rightarrow> string) \<Rightarrow> dataframe \<Rightarrow> py_error + dataframe" where
  "add_key_column src tmp f df =
     (if src \<in> set (df_columns df)
      then Inr (assign_column tmp (\<lambda>r. Val (f (cell_at r src))) df)
      else Inl (KeyError src))"

text \<open>
  The three steps that build \<^verbatim>\<open>dedup_columns\<close>, on the pair of the frame (with the
  key columns added so far) and the list: the phone key and the email key whenever the
  field is mapped, the name key when the field is mapped and the list is still empty.
\<close>

definition phone_step ::
  "(string \<times> string) list \<Rightarrow> dataframe \<times> string list \<Rightarrow> py_error + dataframe \<times> string list" where
  "phone_step std st =
     (case map_of std ''phone'' of
        None \<Rightarrow> Inr st
      | Some phone_col \<Rightarrow>
          bind_err (add_key_column phone_col ''_phone_normalized'' phone_key (fst st))
            (\<lambda>df'. Inr (df', snd st @ [''_phone_normalized''])))"

definition email_step ::
  "(string \<times> string) list \<Rightarrow> dataframe \<times> string list \<Rightarrow> py_error + dataframe \<times> string list" where
  "email_step std st =
     (case map_of std ''email'' of
        None \<Rightarrow> Inr st
      | Some email_col \<Rightarrow>
          bind_err (add_key_column email_col ''_email_normalized'' text_key (fst st))
            (\<lambda>df'. Inr (df', snd st @ [''_email_normalized''])))"

definition name_step ::
  "(string \<times> string) list \<Rightarrow> dataframe \<times> string list \<Rightarrow> py_error + dataframe \<times> string list" where
  "name_step std st =
     (case map_of std ''name'' of
        None \<Rightarrow> Inr st
      | Some name_col \<Rightarrow>
          if snd st = []
          then bind_err (add_key_column name_col ''_name_normalized'' text_key (fst st))
                 (\<lambda>df'. Inr (df', snd st @ [''_name_normalized'']))
          else Inr st)"

text \<open>\<^verbatim>\<open>col.replace("_normalized", "").replace("_", "")\<close>\<close>

definition key_label :: "string \<Rightarrow> string" where
  "key_label col = remove_all_sub ''_'' (remove_all_sub ''_normalized'' col)"

text \<open>
  The groups of one key column: the rows whose key occurs at least twice and is not the
  empty string, grouped by key (\<^verbatim>\<open>groupby\<close> sorts the keys and leaves missing ones out).
\<close>

definition find_groups :: "dataframe \<Rightarrow> string \<Rightarrow> duplicate_group list" where
  "find_groups df col =
     (let duplicates =
            filter (\<lambda>(idx, r). 2 \<le> count_list (column_cells df col) (cell_at r col) \<and>
                               cell_at r col \<noteq> Val [])
              (df_rows df);
          keys = sort (remdups (dropna (map (\<lambda>(idx, r). cell_at r col) duplicates)))
      in concat (map (\<lambda>v.
           let grp = filter (\<lambda>(idx, r). cell_at r col = Val v) duplicates in
           if length grp > 1 \<and> v \<noteq> []
           then [\<lparr>group_key = key_label col, group_value = v, group_count = length grp,
                   row_numbers = map (\<lambda>(idx, r). idx + 2) grp\<rparr>]
           else []) keys))"

text \<open>\<^verbatim>\<open>drop_duplicates(subset=..., keep="first")\<close>: a row stays unless an earlier row has
  the same key.\<close>

fun drop_duplicates :: "(row \<Rightarrow> 'k) \<Rightarrow> 'k list \<Rightarrow> (nat \<times> row) list \<Rightarrow> (nat \<times> row) list" where
  "drop_duplicates key seen [] = []"
| "drop_duplicates key seen ((idx, r) # rest) =
     (if key r \<in> set seen then drop_duplicates key seen rest
      else (idx, r) # drop_duplicates key (key r # seen) rest)"

definition TEMP_COLUMNS :: "string list" where
  "TEMP_COLUMNS = [''_phone_normalized'', ''_email_normalized'', ''_name_normalized'']"

definition drop_temp_columns :: "dataframe \<Rightarrow> dataframe" where
  "drop_temp_columns df =
     foldl (\<lambda>d col. if col \<in> set (df_columns d) then drop_column col d else d) df TEMP_COLUMNS"

text \<open>
  The result of \<^verbatim>\<open>deduplicate\<close>: the deduplicated frame, the number of rows removed
  and the first 50 duplicate groups. (The Python function also leaves the key columns in
  the frame object it was given; the model is of what it returns.)
\<close>

definition deduplicate ::
  "dataframe \<Rightarrow> col_mappings \<Rightarrow> py_error + dataframe \<times> int \<times> duplicate_group list" where
  "deduplicate df column_mappings =
     (if df_empty df then Inr (df, 0, [])
      else
        let std = std_columns column_mappings in
        bind_err (bind_err (bind_err (phone_step std (df, [])) (email_step std)) (name_step std))
          (\<lambda>(keyed, dedup_columns).
             if dedup_columns = [] then Inr (keyed, 0, [])
             else
               let duplicate_groups = concat (map (find_groups keyed) dedup_columns);
                   original_count = length (df_rows keyed);
                   deduped = keyed\<lparr>df_rows :=
                     drop_duplicates (\<lambda>r. map (cell_at r) dedup_columns) [] (df_rows keyed)\<rparr>;
                   deduped = drop_temp_columns deduped
               in Inr (deduped, int original_count - int (length (df_rows deduped)),
                       take 50 duplicate_groups)))"


section \<open>SpreadsheetService.to\_contact\_list\<close>

type_synonym contact = "(string \<times> string option) list"

definition make_contact :: "(string \<times> string) list \<Rightarrow> row \<Rightarrow> contact" where
  "make_contact std_to_orig r =
     foldl (\<lambda>contact (std_field, orig_col).
              AList.update std_field
                (case cell_at r orig_col of Val v \<Rightarrow> Some v | NaN \<Rightarrow> None) contact)
       [] std_to_orig"

text \<open>\<^verbatim>\<open>contact.get(field)\<close> read as a condition.\<close>

definition contact_has :: "contact \<Rightarrow> string \<Rightarrow> bool" where
  "contact_has contact field = (case map_of contact field of Some v \<Rightarrow> truthy v | None \<Rightarrow> False)"

fun contacts_loop :: "(string \<times> string) list \<Rightarrow> (nat \<times> row) list \<Rightarrow> contact list \<Rightarrow> contact list" where
  "contacts_loop std_to_orig [] contacts = contacts"
| "contacts_loop std_to_orig ((idx, r) # rest) contacts =
     (let contact = make_contact std_to_orig r in
      if contact_has contact ''name'' \<or> contact_has contact ''phone''
      then contacts_loop std_to_orig rest (contacts @ [contact])
      else contacts_loop std_to_orig rest contacts)"

definition to_contact_list :: "dataframe \<Rightarrow> col_mappings \<Rightarrow> contact list" where
  "to_contact_list df column_mappings =
     contacts_loop (std_columns column_mappings) (df_rows df) []"

text \<open>\<^verbatim>\<open>failed = len(df) - len(contacts)\<close> of the processing summary, \<open>df\<close> being the
  dataset as read.\<close>

definition failed_total :: "dataframe \<Rightarrow> contact list \<Rightarrow> int" where
  "failed_total df contacts = int (length (df_rows df)) - int (length contacts)"


section \<open>SpreadsheetService.clean\_data\<close>

text \<open>\<^verbatim>\<open>{orig: std for orig, std in column_mappings.items() if std}\<close> (the keys of a
  dictionary are distinct).\<close>

definition rename_map :: "col_mappings \<Rightarrow> (string \<times> string) list" where
  "rename_map column_mappings =
     map (\<lambda>(orig, std). (orig, the std)) (filter (\<lambda>(orig, std). truthy std) column_mappings)"

definition renamed :: "(string \<times> string) list \<Rightarrow> string \<Rightarrow> string" where
  "renamed rmap col = (case map_of rmap col of Some std \<Rightarrow> std | None \<Rightarrow> col)"

text \<open>\<^verbatim>\<open>df.rename(columns=rename_map)\<close>\<close>

definition rename_columns :: "(string \<times> string) list \<Rightarrow> dataframe \<Rightarrow> dataframe" where
  "rename_columns rmap df =
     \<lparr>df_columns = map (renamed rmap) (df_columns df),
      df_rows = map (\<lambda>(idx, r). (idx, map (\<lambda>(col, v). (renamed rmap col, v)) r)) (df_rows df)\<rparr>"

text \<open>\<^verbatim>\<open>re.sub(r"[^\d\+]", "", phone_str)\<close> and the rest of \<^verbatim>\<open>_clean_phone\<close>.\<close>

definition clean_phone :: "cell \<Rightarrow> cell" where
  "clean_phone phone =
     (case phone of
        NaN \<Rightarrow> NaN
      | Val v \<Rightarrow>
          (let phone_str = py_strip v;
               cleaned = filter (\<lambda>c. is_digit c \<or> c = CHR ''+'') phone_str;
               fallback = (if 8 \<le> length cleaned then Val cleaned else NaN)
           in case format_malaysian_phone phone_str True of
                Some formatted \<Rightarrow> if formatted \<noteq> [] then Val formatted else fallback
              | None \<Rightarrow> fallback))"

definition clean_email :: "cell \<Rightarrow> cell" where
  "clean_email email =
     (case email of
        NaN \<Rightarrow> NaN
      | Val v \<Rightarrow>
          (let email_str = py_lower (py_strip v)
           in if email_full_match email_str then Val email_str else NaN))"

definition option_cell :: "string option \<Rightarrow> cell" where
  "option_cell x = (case x of None \<Rightarrow> NaN | Some v \<Rightarrow> Val v)"

text \<open>\<^verbatim>\<open>df[col] = df[col].apply(f)\<close> for a column of the frame.\<close>

definition apply_column :: "string \<Rightarrow> (cell \<Rightarrow> cell) \<Rightarrow> dataframe \<Rightarrow> dataframe" where
  "apply_column col f df = assign_column col (\<lambda>r. f (cell_at r col)) df"

text \<open>\<^verbatim>\<open>str(x).strip() if pd.notna(x) else None\<close>, applied to the columns of text; the
  text of a number has no surrounding whitespace, so the model applies it to every cell.\<close>

definition strip_cell :: "cell \<Rightarrow> cell" where
  "strip_cell x = (case x of NaN \<Rightarrow> NaN | Val v \<Rightarrow> Val (py_strip v))"

definition strip_all_columns :: "dataframe \<Rightarrow> dataframe" where
  "strip_all_columns df =
     df\<lparr>df_rows := map (\<lambda>(idx, r). (idx, map (\<lambda>(col, v). (col, strip_cell v)) r)) (df_rows df)\<rparr>"

definition clean_data :: "dataframe \<Rightarrow> col_mappings \<Rightarrow> bool \<Rightarrow> dataframe" where
  "clean_data df column_mappings clean_phones =
     (let cleaned_df = rename_columns (rename_map column_mappings) df;
          cleaned_df = (if clean_phones \<and> ''phone'' \<in> set (df_columns cleaned_df)
                        then apply_column ''phone'' clean_phone cleaned_df else cleaned_df);
          cleaned_df = (if ''email'' \<in> set (df_columns cleaned_df)
                        then apply_column ''email'' clean_email cleaned_df else cleaned_df);
          cleaned_df = (if ''name'' \<in> set (df_columns cleaned_df)
                        then apply_column ''name'' (\<lambda>x. option_cell (clean_name x)) cleaned_df
                        else cleaned_df)
      in strip_all_columns cleaned_df)"


section \<open>routers/spreadsheet.py: process\_spreadsheet\<close>

record process_result =
  total_processed :: nat
  successful :: nat
  failed :: int
  duplicates_removed :: int
  contacts :: "contact list"
  duplicate_groups :: "duplicate_group list"

text \<open>
  The processing of a dataset that was read, from \<^verbatim>\<open>clean_data\<close> to the summary:
  cleaning, deduplication when requested, conversion to contacts, and the counts. (The
  optional categorization adds fields to the contacts and changes no count; an error is
  what the service reports as a failed request.)
\<close>

definition process_spreadsheet ::
  "dataframe \<Rightarrow> col_mappings \<Rightarrow> bool \<Rightarrow> bool \<Rightarrow> py_error + process_result" where
  "process_spreadsheet df mappings clean_phones remove_duplicates =
     (let cleaned_df = clean_data df mappings clean_phones in
      bind_err
        (if remove_duplicates then deduplicate cleaned_df mappings else Inr (cleaned_df, 0, []))
        (\<lambda>(cleaned_df, removed, groups).
           let contact_list = to_contact_list cleaned_df mappings in
           Inr \<lparr>total_processed = length (df_rows df),
                successful = length contact_list,
                failed = failed_total df contact_list,
                duplicates_removed = removed,
                contacts = contact_list,
                duplicate_groups = groups\<rparr>))"


section \<open>The specification's reading of isMalaysian\<close>

text \<open>
  The specification describes \<^verbatim>\<open>isMalaysian\<close> as: strip the leading plus sign, the country
  code 60 and a leading zero, then test whether the remainder starts with a known mobile
  or landline prefix. This is that description, to be compared with
  \<^const>\<open>is_malaysian_number\<close>.
\<close>

definition is_malaysian_as_specified :: "string \<Rightarrow> bool" where
  "is_malaysian_as_specified raw =
     (has_prefix_in MOBILE_PREFIXES (strip_country_and_zero raw) \<or>
      has_prefix_in LANDLINE_PREFIXES (strip_country_and_zero raw))"


section \<open>Notions used to state the properties\<close>

text \<open>The header test of \<^const>\<open>keyword_loop\<close>, over the whole field table: some keyword
  contains the lower-cased header or is contained in it.\<close>

definition header_matches_keyword :: "string \<Rightarrow> bool" where
  "header_matches_keyword col_lower =
     list_ex (\<lambda>(field_name, keywords).
        list_ex (\<lambda>keyword. contains col_lower keyword \<or> contains keyword col_lower) keywords)
       COLUMN_MAPPINGS"

text \<open>A mapping result is either unmapped with confidence 0, or mapped with one of the
  five confidence levels.\<close>

definition mapping_ok :: "column_mapping \<Rightarrow> bool" where
  "mapping_ok m =
     ((mapped_to m = None \<and> confidence m = 0) \<or>
      (mapped_to m \<noteq> None \<and> confidence m \<in> {0.7, 0.8, 0.85, 0.9, 0.95}))"

text \<open>The cell a row holds for a canonical field: the cell of the original column that the
  mapping assigns to the field, missing when no column is assigned.\<close>

definition mapped_cell :: "col_mappings \<Rightarrow> row \<Rightarrow> string \<Rightarrow> cell" where
  "mapped_cell column_mappings r field =
     (case map_of (std_columns column_mappings) field of
        Some orig_col \<Rightarrow> cell_at r orig_col | None \<Rightarrow> NaN)"

text \<open>A cell that is present and whose text is not empty.\<close>

definition has_text :: "cell \<Rightarrow> bool" where
  "has_text c = (case c of NaN \<Rightarrow> False | Val v \<Rightarrow> v \<noteq> [])"

text \<open>Two small datasets for the instances below.\<close>

definition sample_sheet :: dataframe where
  "sample_sheet = from_rows [''Phone Number'', ''xyz'', ''misc'']
     [[(''Phone Number'', Val ''012-345 6789''), (''xyz'', Val ''a@b.com''), (''misc'', Val ''?'')],
      [(''Phone Number'', NaN), (''xyz'', Val ''c.d@e.org''), (''misc'', NaN)]]"

definition email_sheet :: dataframe where
  "email_sheet = from_rows [''xyz'']
     [[(''xyz'', Val ''a@b.com'')], [(''xyz'', Val ''c.d@e.org'')], [(''xyz'', NaN)],
      [(''xyz'', Val ''x_y@z.co.uk'')], [(''xyz'', Val ''q@r.my'')], [(''xyz'', Val ''s@t.io'')],
      [(''xyz'', Val ''not an email'')]]"







text \<open>Two more datasets with their confirmed mappings, for the instances below.\<close>

definition contact_sheet :: dataframe where
  "contact_sheet = from_rows [''name'', ''phone'', ''email'']
     [[(''name'', Val ''Ali''), (''phone'', Val ''012-345 6789''), (''email'', Val ''a@x.com'')],
      [(''name'', NaN), (''phone'', Val ''+6012-3456789''), (''email'', Val ''bad'')],
      [(''name'', Val ''Siti''), (''phone'', Val ''123''), (''email'', NaN)]]"

definition contact_mapping :: col_mappings where
  "contact_mapping = [(''name'', Some ''name''), (''phone'', Some ''phone''), (''email'', Some ''email'')]"




section \<open>Properties of the phone normalizer\<close>

lemma zero_not_mobile: "startswith d ''0'' \<Longrightarrow> \<not> has_prefix_in MOBILE_PREFIXES d"
  by (cases d) (auto simp: startswith_def has_prefix_in_def MOBILE_PREFIXES_def)

lemma strip_country_and_zero_Nil: "strip_country_and_zero [] = []"
  by (simp add: strip_country_and_zero_def cleaned_digits_def clean_phone_number_def
      lstrip_plus_def startswith_def)

lemma plus_not_digit: "\<not> is_digit CHR ''+''"
  by (simp add: is_digit_def)

lemma cleaned_digits_filter: "cleaned_digits n = filter is_digit n"
proof -
  note plus = plus_not_digit
  have "dropWhile (\<lambda>c. c = CHR ''+'') (filter is_digit n) = filter is_digit n"
    by (cases "filter is_digit n") (auto simp: plus dest: filter_eq_ConsD)
  then show ?thesis
    by (simp add: cleaned_digits_def clean_phone_number_def lstrip_plus_def Let_def)
qed

lemma cleaned_digits_clean: "cleaned_digits (clean_phone_number n) = cleaned_digits n"
  by (simp add: cleaned_digits_filter clean_phone_number_def Let_def plus_not_digit)

lemma strip_country_and_zero_clean:
  "strip_country_and_zero (clean_phone_number n) = strip_country_and_zero n"
  by (simp add: strip_country_and_zero_def cleaned_digits_clean)

lemma strip_country_and_zero_digits: "list_all is_digit (strip_country_and_zero n)"
proof -
  have "list_all is_digit (cleaned_digits n)"
    by (simp add: cleaned_digits_filter list_all_iff)
  then show ?thesis
    by (auto simp: strip_country_and_zero_def Let_def list_all_iff dest: in_set_dropD)
qed

lemma format_clean: "format_malaysian_phone (clean_phone_number n) b = format_malaysian_phone n b"
proof (cases "clean_phone_number n = []")
  case True
  then have "filter is_digit n = []"
    by (auto simp: clean_phone_number_def Let_def split: if_splits)
  then have "strip_country_and_zero n = []"
    by (simp add: strip_country_and_zero_def cleaned_digits_filter startswith_def)
  with True show ?thesis
    by (simp add: format_malaysian_phone_def)
next
  case False
  then have "n \<noteq> []"
    by (auto simp: clean_phone_number_def)
  with False show ?thesis
    by (simp add: format_malaysian_phone_def strip_country_and_zero_clean)
qed

lemma format_valid:
  assumes "fst (validate_malaysian_phone n)"
  shows "format_malaysian_phone n b \<noteq> None"
  using assms
  by (auto simp: validate_malaysian_phone_def format_malaysian_phone_def Let_def split: if_splits)


lemma filter_digits_id: "list_all is_digit c \<Longrightarrow> filter is_digit c = c"
  by (simp add: list_all_iff)

lemma list_all_take: "list_all P c \<Longrightarrow> list_all P (take k c)"
  by (auto simp: list_all_iff dest: in_set_takeD)

lemma list_all_drop: "list_all P c \<Longrightarrow> list_all P (drop k c)"
  by (auto simp: list_all_iff dest: in_set_dropD)

lemma format_digits:
  assumes "format_malaysian_phone n True = Some f"
  shows "filter is_digit f = ''60'' @ strip_country_and_zero n"
proof -
  let ?c = "strip_country_and_zero n"
  have d: "list_all is_digit ?c"
    by (rule strip_country_and_zero_digits)
  have lit: "filter is_digit ''+60 '' = ''60''" "filter is_digit ''-'' = []"
    "filter is_digit '' '' = []"
    by (simp_all add: is_digit_def)
  have parts: "filter is_digit (take k ?c) = take k ?c" "filter is_digit (drop k ?c) = drop k ?c"
    "filter is_digit (take j (drop k ?c)) = take j (drop k ?c)"
    "filter is_digit (drop j (drop k ?c)) = drop j (drop k ?c)" for j k
    using d by (simp_all only: filter_digits_id list_all_take list_all_drop)
  have five: "drop 5 ?c = drop 3 (drop 2 ?c)" "drop 5 ?c = drop 4 (drop 1 ?c)"
    by simp_all
  from assms consider
      "f = ''+60 '' @ take 2 ?c @ ''-'' @ take 3 (drop 2 ?c) @ '' '' @ drop 5 ?c"
    | "f = ''+60 '' @ take 2 ?c @ ''-'' @ drop 2 ?c"
    | "f = ''+60 '' @ take 1 ?c @ ''-'' @ take 4 (drop 1 ?c) @ '' '' @ drop 5 ?c"
    | "f = ''+60 '' @ take 1 ?c @ ''-'' @ drop 1 ?c"
    by (auto simp: format_malaysian_phone_def Let_def split: if_splits)
  then show ?thesis
  proof cases
    case 1
    then have "filter is_digit f = ''60'' @ take 2 ?c @ take 3 (drop 2 ?c) @ drop 3 (drop 2 ?c)"
      by (simp only: filter_append lit parts five(1) append_Nil)
    then show ?thesis by (simp only: append_take_drop_id)
  next
    case 2
    then have "filter is_digit f = ''60'' @ take 2 ?c @ drop 2 ?c"
      by (simp only: filter_append lit parts append_Nil)
    then show ?thesis by (simp only: append_take_drop_id)
  next
    case 3
    then have "filter is_digit f = ''60'' @ take 1 ?c @ take 4 (drop 1 ?c) @ drop 4 (drop 1 ?c)"
      by (simp only: filter_append lit parts five(2) append_Nil)
    then show ?thesis by (simp only: append_take_drop_id)
  next
    case 4
    then have "filter is_digit f = ''60'' @ take 1 ?c @ drop 1 ?c"
      by (simp only: filter_append lit parts append_Nil)
    then show ?thesis by (simp only: append_take_drop_id)
  qed
qed

lemma normalize_formatted:
  assumes "format_malaysian_phone n True = Some f"
  shows "normalize_phone_for_comparison f = ''60'' @ strip_country_and_zero n"
proof -
  from format_digits [OF assms] have d: "cleaned_digits f = ''60'' @ strip_country_and_zero n"
    by (simp add: cleaned_digits_filter)
  then have "f \<noteq> []"
    by (auto simp: cleaned_digits_filter)
  with d show ?thesis
    by (simp add: normalize_phone_for_comparison_def startswith_def)
qed

lemma startswith_append: "startswith s (p @ q) \<Longrightarrow> startswith s p"
proof -
  assume "startswith s (p @ q)"
  then have h: "take (length p + length q) s = p @ q"
    by (simp add: startswith_def)
  have "take (length p) s = take (length p) (take (length p + length q) s)"
    by (simp add: min_def)
  also have "\<dots> = p"
    by (simp only: h) simp
  finally show ?thesis
    by (simp add: startswith_def)
qed

lemma startswith_600: "startswith d ''600'' \<Longrightarrow> startswith d ''60''"
  using startswith_append [of d "''60''" "''0''"] by simp

lemma normalize_valid:
  assumes "n \<noteq> []"
  shows "normalize_phone_for_comparison n =
     (if startswith (cleaned_digits n) ''600'' then ''600'' @ strip_country_and_zero n
      else ''60'' @ strip_country_and_zero n)"
proof -
  let ?d = "cleaned_digits n"
  consider (cc0) "startswith ?d ''600''" "startswith ?d ''60''"
    | (cc) "startswith ?d ''60''" "\<not> startswith ?d ''600''"
    | (zero) "\<not> startswith ?d ''60''" "startswith ?d ''0''"
    | (bare) "\<not> startswith ?d ''60''" "\<not> startswith ?d ''0''"
    using startswith_600 [of ?d] by blast
  then show ?thesis
  proof cases
    case cc0
    then obtain rest where d: "?d = ''600'' @ rest"
      by (metis append_take_drop_id startswith_def)
    then show ?thesis
      using assms
      by (simp add: normalize_phone_for_comparison_def strip_country_and_zero_def startswith_def)
  next
    case cc
    then obtain rest where d: "?d = ''60'' @ rest"
      by (metis append_take_drop_id startswith_def)
    with cc(2) have "\<not> startswith rest ''0''"
      by (cases rest) (auto simp: startswith_def)
    with d cc(2) show ?thesis
      using assms
      by (simp add: normalize_phone_for_comparison_def strip_country_and_zero_def startswith_def)
  next
    case zero
    then have "\<not> startswith ?d ''600''"
      by (auto dest: startswith_600)
    with zero show ?thesis
      using assms
      by (simp add: normalize_phone_for_comparison_def strip_country_and_zero_def)
  next
    case bare
    then have "\<not> startswith ?d ''600''"
      by (auto dest: startswith_600)
    with bare show ?thesis
      using assms
      by (simp add: normalize_phone_for_comparison_def strip_country_and_zero_def)
  qed
qed

text \<open>
  For every number that validation accepts, formatting succeeds (on the number and on its
  cleaned form alike), and the formatted number has the same comparison form as the
  number itself exactly when the digits do not start with 600, that is, unless a trunk
  zero follows the country code.
\<close>

lemma format_roundtrip:
  assumes "fst (validate_malaysian_phone n)"
  shows "\<exists>f. format_malaysian_phone (clean_phone_number n) True = Some f \<and>
     format_malaysian_phone n True = Some f \<and>
     (normalize_phone_for_comparison f = normalize_phone_for_comparison n \<longleftrightarrow>
        \<not> startswith (cleaned_digits n) ''600'')"
proof -
  from format_valid [OF assms] obtain f where f: "format_malaysian_phone n True = Some f"
    by blast
  from assms have n: "n \<noteq> []"
    by (auto simp: validate_malaysian_phone_def split: if_splits)
  have "normalize_phone_for_comparison f = normalize_phone_for_comparison n \<longleftrightarrow>
        \<not> startswith (cleaned_digits n) ''600''"
    by (simp add: normalize_formatted [OF f] normalize_valid [OF n])
  with f show ?thesis
    by (simp add: format_clean)
qed

text \<open>
  C3, as the code has it. With \<open>d\<close> the cleaned digits (plus signs removed):
  a number whose digits start with 60 is always accepted, whatever follows; digits that
  start with 0 are accepted exactly when a mobile or landline prefix follows the zero;
  digits that start with neither are accepted when they start with a mobile prefix, and
  rejected when they start with neither a mobile nor a landline prefix.
\<close>

theorem is_malaysian_number_cases:
  "(startswith (cleaned_digits raw) ''60'' \<longrightarrow> is_malaysian_number raw) \<and>
   (\<not> startswith (cleaned_digits raw) ''60'' \<and> startswith (cleaned_digits raw) ''0'' \<longrightarrow>
      is_malaysian_number raw =
        (has_prefix_in MOBILE_PREFIXES (drop 1 (cleaned_digits raw)) \<or>
         has_prefix_in LANDLINE_PREFIXES (drop 1 (cleaned_digits raw)))) \<and>
   (\<not> startswith (cleaned_digits raw) ''60'' \<and> \<not> startswith (cleaned_digits raw) ''0'' \<and>
    has_prefix_in MOBILE_PREFIXES (cleaned_digits raw) \<longrightarrow> is_malaysian_number raw) \<and>
   (\<not> startswith (cleaned_digits raw) ''60'' \<and> \<not> startswith (cleaned_digits raw) ''0'' \<and>
    \<not> has_prefix_in MOBILE_PREFIXES (cleaned_digits raw) \<and>
    \<not> has_prefix_in LANDLINE_PREFIXES (cleaned_digits raw) \<longrightarrow> \<not> is_malaysian_number raw)"
  using zero_not_mobile [of "cleaned_digits raw"]
  by (auto simp: is_malaysian_number_def Let_def)

text \<open>
  C3, the cases above at five numbers: country code, local landline, local number with
  an unknown prefix, bare mobile, bare number with an unknown prefix.
\<close>

theorem is_malaysian_number_cases_witness:
  "is_malaysian_number ''+60 12-345 6789'' \<and> is_malaysian_number ''03-1234 5678'' \<and>
   \<not> is_malaysian_number ''0212345678'' \<and> is_malaysian_number ''12-345 6789'' \<and>
   \<not> is_malaysian_number ''2345 6789''"
  using is_malaysian_number_cases [of "''+60 12-345 6789''"]
    is_malaysian_number_cases [of "''03-1234 5678''"]
    is_malaysian_number_cases [of "''0212345678''"]
    is_malaysian_number_cases [of "''12-345 6789''"]
    is_malaysian_number_cases [of "''2345 6789''"]
  by (simp add: cleaned_digits_def clean_phone_number_def lstrip_plus_def startswith_def
      py_strip_def is_space_def is_digit_def has_prefix_in_def MOBILE_PREFIXES_def
      LANDLINE_PREFIXES_def)

text \<open>
  C3 as stated fails: the digits 6000 start with the country code, so the code answers
  true, although what remains after stripping starts with no known prefix.
\<close>

theorem is_malaysian_number_counterexample:
  "is_malaysian_number ''6000'' \<and> \<not> is_malaysian_as_specified ''6000''"
  by code_simp

text \<open>
  C4 at the valid mobile number \<^verbatim>\<open>+60 012-345 6789\<close> (country code followed by the trunk
  zero): validation accepts it, formatting succeeds, but the formatted number normalizes
  to 60123456789 while the number itself normalizes to 600123456789.
\<close>

theorem format_roundtrip_trunk_zero:
  "validate_malaysian_phone ''+60 012-345 6789'' = (True, ''Valid Malaysian phone number'') \<and>
   has_prefix_in MOBILE_PREFIXES (strip_country_and_zero ''+60 012-345 6789'') \<and>
   format_malaysian_phone (clean_phone_number ''+60 012-345 6789'') True = Some ''+60 12-345 6789'' \<and>
   format_malaysian_phone ''+60 012-345 6789'' True = Some ''+60 12-345 6789'' \<and>
   normalize_phone_for_comparison ''+60 12-345 6789'' = ''60123456789'' \<and>
   normalize_phone_for_comparison ''+60 012-345 6789'' = ''600123456789''"
  by code_simp

text \<open>
  C5, with the reasons the code returns: a non-empty input with fewer than 8 digits left
  after stripping is rejected with "Phone number is too short", an input with more than 10
  left with "Phone number is too long"; so are the two inputs the specification names.
\<close>

theorem validate_length_reasons:
  "(raw \<noteq> [] \<and> length (strip_country_and_zero raw) < 8 \<longrightarrow>
      validate_malaysian_phone raw = (False, ''Phone number is too short'')) \<and>
   (10 < length (strip_country_and_zero raw) \<longrightarrow>
      validate_malaysian_phone raw = (False, ''Phone number is too long'')) \<and>
   validate_malaysian_phone ''123'' = (False, ''Phone number is too short'') \<and>
   validate_malaysian_phone ''+60123456789012'' = (False, ''Phone number is too long'')"
proof -
  have short: "raw \<noteq> [] \<and> length (strip_country_and_zero raw) < 8 \<longrightarrow>
      validate_malaysian_phone raw = (False, ''Phone number is too short'')"
    by (simp add: validate_malaysian_phone_def)
  have long: "10 < length (strip_country_and_zero raw) \<longrightarrow>
      validate_malaysian_phone raw = (False, ''Phone number is too long'')"
    using strip_country_and_zero_Nil by (auto simp: validate_malaysian_phone_def)
  have e1: "validate_malaysian_phone ''123'' = (False, ''Phone number is too short'')"
    by code_simp
  have e2: "validate_malaysian_phone ''+60123456789012'' = (False, ''Phone number is too long'')"
    by code_simp
  from short long e1 e2 show ?thesis by blast
qed

text \<open>C5, the two general cases at a five-digit and a fourteen-digit input.\<close>

theorem validate_length_reasons_witness:
  "validate_malaysian_phone ''12-34'' = (False, ''Phone number is too short'') \<and>
   validate_malaysian_phone ''012-345 6789 0123'' = (False, ''Phone number is too long'')"
  using validate_length_reasons [of "''12-34''"]
    validate_length_reasons [of "''012-345 6789 0123''"]
  by (simp add: strip_country_and_zero_def cleaned_digits_def clean_phone_number_def
      lstrip_plus_def startswith_def py_strip_def is_space_def is_digit_def)

text \<open>
  C5 as stated fails: the reason returned for \<^verbatim>\<open>123\<close> is not the text "too short";
  and the empty input, which leaves fewer than 8 digits, is rejected for being empty.
\<close>

theorem validate_reason_counterexample:
  "validate_malaysian_phone ''123'' \<noteq> (False, ''too short'') \<and>
   length (strip_country_and_zero []) < 8 \<and>
   validate_malaysian_phone [] = (False, ''Phone number is empty'')"
  by code_simp


section \<open>Properties of the data cleaner\<close>

text \<open>
  C2, as the code has it: the honorific is kept as written (lower case), the upper-case
  word is kept, the other two words are title-cased.
\<close>

theorem clean_name_dato_example:
  "clean_name (Val ''dato' AHMAD bin abdullah'') = Some ''dato' AHMAD Bin Abdullah''"
  by code_simp

text \<open>C2 as stated fails: the result does not start with a capitalised honorific.\<close>

theorem clean_name_dato_counterexample:
  "clean_name (Val ''dato' AHMAD bin abdullah'') \<noteq> Some ''Dato' AHMAD Bin Abdullah''"
  by code_simp


section \<open>Properties of the column detector\<close>

lemma keyword_loop_cases:
  "keyword_loop cl f kws m = m \<or>
   keyword_loop cl f kws m = m\<lparr>mapped_to := Some f, confidence := 0.95\<rparr> \<or>
   keyword_loop cl f kws m = m\<lparr>mapped_to := Some f, confidence := 0.8\<rparr>"
  by (induction kws) auto

lemma keyword_loop_ok: "mapping_ok m \<Longrightarrow> mapping_ok (keyword_loop cl f kws m)"
  using keyword_loop_cases [of cl f kws m] by (auto simp: mapping_ok_def)

lemma keyword_loop_name: "original_name (keyword_loop cl f kws m) = original_name m"
  using keyword_loop_cases [of cl f kws m] by auto

lemma field_loop_ok: "mapping_ok m \<Longrightarrow> mapping_ok (field_loop cl tbl m)"
  by (induction cl tbl m rule: field_loop.induct) (auto simp: Let_def keyword_loop_ok)

lemma field_loop_name: "original_name (field_loop cl tbl m) = original_name m"
  by (induction cl tbl m rule: field_loop.induct) (auto simp: Let_def keyword_loop_name)

lemma detect_by_content_ok: "mapping_ok m \<Longrightarrow> mapping_ok (detect_by_content m ss)"
  by (auto simp: detect_by_content_def mapping_ok_def)

lemma detect_by_content_name: "original_name (detect_by_content m ss) = original_name m"
  by (simp add: detect_by_content_def)

lemma initial_mapping_ok:
  "mapping_ok \<lparr>original_name = col, mapped_to = None, confidence = 0, sample_values = ss\<rparr>"
  by (simp add: mapping_ok_def)

lemma detect_column_ok: "mapping_ok (detect_column df col)"
  unfolding detect_column_def Let_def
  by (auto simp: initial_mapping_ok intro!: detect_by_content_ok field_loop_ok)

lemma detect_column_name: "original_name (detect_column df col) = col"
  by (simp add: detect_column_def Let_def detect_by_content_name field_loop_name)

lemma keyword_loop_no_match:
  "\<not> list_ex (\<lambda>keyword. contains cl keyword \<or> contains keyword cl) kws \<Longrightarrow>
   keyword_loop cl f kws m = m"
  by (induction kws) auto

lemma field_loop_no_match:
  "\<not> list_ex (\<lambda>(field_name, keywords).
        list_ex (\<lambda>keyword. contains cl keyword \<or> contains keyword cl) keywords) tbl \<Longrightarrow>
   field_loop cl tbl m = m"
  by (induction cl tbl m rule: field_loop.induct) (auto simp: Let_def keyword_loop_no_match)

lemma detect_column_unmatched:
  assumes "\<not> header_matches_keyword (py_strip (py_lower col))"
  shows "detect_column df col =
     (let samples = take 5 (dropna (column_cells df col));
          mapping = \<lparr>original_name = col, mapped_to = None, confidence = 0,
                     sample_values = samples\<rparr>
      in detect_by_content mapping samples)"
  using assms
  by (simp add: detect_column_def Let_def header_matches_keyword_def field_loop_no_match
      detect_by_content_def)

text \<open>
  C9: column detection returns one result per column, in column order (the results'
  original names are the dataset's column list); a result is unmapped exactly when its
  confidence is 0, a mapped result has confidence 0.7, 0.8, 0.85, 0.9 or 0.95, and every
  confidence lies between 0 and 1.
\<close>

theorem detect_columns_shape:
  "map original_name (detect_columns df) = df_columns df \<and>
   (\<forall>m \<in> set (detect_columns df).
      (mapped_to m = None \<longleftrightarrow> confidence m = 0) \<and>
      (mapped_to m \<noteq> None \<longrightarrow> confidence m \<in> {0.7, 0.8, 0.85, 0.9, 0.95}) \<and>
      0 \<le> confidence m \<and> confidence m \<le> 1)"
proof
  show "map original_name (detect_columns df) = df_columns df"
    by (simp add: detect_columns_def detect_column_name comp_def)
next
  show "\<forall>m \<in> set (detect_columns df).
      (mapped_to m = None \<longleftrightarrow> confidence m = 0) \<and>
      (mapped_to m \<noteq> None \<longrightarrow> confidence m \<in> {0.7, 0.8, 0.85, 0.9, 0.95}) \<and>
      0 \<le> confidence m \<and> confidence m \<le> 1"
  proof
    fix m assume "m \<in> set (detect_columns df)"
    then obtain col where "m = detect_column df col"
      by (auto simp: detect_columns_def)
    then have "mapping_ok m" by (simp add: detect_column_ok)
    then show "(mapped_to m = None \<longleftrightarrow> confidence m = 0) \<and>
      (mapped_to m \<noteq> None \<longrightarrow> confidence m \<in> {0.7, 0.8, 0.85, 0.9, 0.95}) \<and>
      0 \<le> confidence m \<and> confidence m \<le> 1"
      by (auto simp: mapping_ok_def)
  qed
qed

text \<open>
  C9 on a three-column dataset: the header "Phone Number" is matched by keyword
  (confidence 0.8), the column of e-mail addresses by content (0.9), the third column
  stays unmapped (0).
\<close>

theorem detect_columns_shape_witness:
  "map original_name (detect_columns sample_sheet) = df_columns sample_sheet \<and>
   map mapped_to (detect_columns sample_sheet) = [Some ''phone'', Some ''email'', None] \<and>
   map confidence (detect_columns sample_sheet) = [0.8, 0.9, 0] \<and>
   list_all (\<lambda>m. (mapped_to m = None) = (confidence m = 0) \<and>
                  (mapped_to m = None \<or> confidence m \<in> {0.7, 0.8, 0.85, 0.9, 0.95}) \<and>
                  0 \<le> confidence m \<and> confidence m \<le> 1)
     (detect_columns sample_sheet)"
proof -
  have e: "map (\<lambda>m. (mapped_to m, confidence m)) (detect_columns sample_sheet) =
      [(Some ''phone'', 0.8), (Some ''email'', 0.9), (None, 0)]"
    by code_simp
  have "map mapped_to (detect_columns sample_sheet) =
      map fst (map (\<lambda>m. (mapped_to m, confidence m)) (detect_columns sample_sheet))"
    by (simp add: comp_def)
  then have m: "map mapped_to (detect_columns sample_sheet) = [Some ''phone'', Some ''email'', None]"
    by (simp only: e) simp
  have "map confidence (detect_columns sample_sheet) =
      map snd (map (\<lambda>m. (mapped_to m, confidence m)) (detect_columns sample_sheet))"
    by (simp add: comp_def)
  then have c: "map confidence (detect_columns sample_sheet) = [0.8, 0.9, 0]"
    by (simp only: e) simp
  from detect_columns_shape [of sample_sheet] m c show ?thesis
    by (auto simp: list_all_iff)
qed

text \<open>
  C7, as the code has it. For a column whose header matches no keyword, with
  \<open>samples\<close> its first five values that are not missing: with no sample the column
  stays unmapped (confidence 0); otherwise it is mapped to email with confidence 0.9 when
  at least 60% of the samples match the e-mail pattern, else to phone with 0.85 when at
  least 60% match a phone pattern, else to name with 0.7 when at least 60% look like a
  name, else it stays unmapped with confidence 0. In particular five samples that all
  match the e-mail pattern give email with confidence 0.9.
\<close>

theorem detect_column_content_fallback:
  assumes "\<not> header_matches_keyword (py_strip (py_lower col))"
    and "samples = take 5 (dropna (column_cells df col))"
    and "result = (mapped_to (detect_column df col), confidence (detect_column df col))"
  shows
   "(samples = [] \<longrightarrow> result = (None, 0)) \<and>
    (samples \<noteq> [] \<and> at_least_60_percent (length (filter email_prefix_match samples)) (length samples)
       \<longrightarrow> result = (Some ''email'', 0.9)) \<and>
    (samples \<noteq> [] \<and> \<not> at_least_60_percent (length (filter email_prefix_match samples)) (length samples)
       \<and> at_least_60_percent (length (filter phone_shape samples)) (length samples)
       \<longrightarrow> result = (Some ''phone'', 0.85)) \<and>
    (samples \<noteq> [] \<and> \<not> at_least_60_percent (length (filter email_prefix_match samples)) (length samples)
       \<and> \<not> at_least_60_percent (length (filter phone_shape samples)) (length samples)
       \<and> at_least_60_percent (length (filter name_like samples)) (length samples)
       \<longrightarrow> result = (Some ''name'', 0.7)) \<and>
    (samples \<noteq> [] \<and> \<not> at_least_60_percent (length (filter email_prefix_match samples)) (length samples)
       \<and> \<not> at_least_60_percent (length (filter phone_shape samples)) (length samples)
       \<and> \<not> at_least_60_percent (length (filter name_like samples)) (length samples)
       \<longrightarrow> result = (None, 0)) \<and>
    (length samples = 5 \<and> list_all email_prefix_match samples \<longrightarrow> result = (Some ''email'', 0.9))"
proof -
  have five: "length samples = 5 \<and> list_all email_prefix_match samples \<longrightarrow>
      samples \<noteq> [] \<and> at_least_60_percent (length (filter email_prefix_match samples)) (length samples)"
    by (auto simp: at_least_60_percent_def list_all_iff)
  have d: "detect_column df col =
      detect_by_content \<lparr>original_name = col, mapped_to = None, confidence = 0,
                     sample_values = samples\<rparr> samples"
    using detect_column_unmatched [OF assms(1)] assms(2) by (simp add: Let_def)
  show ?thesis
    using five unfolding assms(3) d detect_by_content_def by auto
qed

text \<open>
  C7 on a column headed "xyz" (no keyword matches it) whose first five present values
  are e-mail addresses: it is mapped to email with confidence 0.9.
\<close>

theorem detect_column_content_fallback_witness:
  "\<not> header_matches_keyword (py_strip (py_lower ''xyz'')) \<and>
   take 5 (dropna (column_cells email_sheet ''xyz'')) =
     [''a@b.com'', ''c.d@e.org'', ''x_y@z.co.uk'', ''q@r.my'', ''s@t.io''] \<and>
   list_all email_prefix_match (take 5 (dropna (column_cells email_sheet ''xyz''))) \<and>
   mapped_to (detect_column email_sheet ''xyz'') = Some ''email'' \<and>
   confidence (detect_column email_sheet ''xyz'') = 0.9"
proof -
  have h: "\<not> header_matches_keyword (py_strip (py_lower ''xyz''))"
    by code_simp
  have s: "take 5 (dropna (column_cells email_sheet ''xyz'')) =
     [''a@b.com'', ''c.d@e.org'', ''x_y@z.co.uk'', ''q@r.my'', ''s@t.io'']"
    by code_simp
  have a: "list_all email_prefix_match
     [''a@b.com'', ''c.d@e.org'', ''x_y@z.co.uk'', ''q@r.my'', ''s@t.io'']"
    by code_simp
  from detect_column_content_fallback [OF h refl refl, of email_sheet] s a show ?thesis
    using h by simp
qed

text \<open>
  C7 as stated fails on "regardless of header": a column of five e-mail addresses under
  the header "phone" is mapped to phone with confidence 0.95, by its header. And a column
  with no sample (of which any share matches vacuously) stays unmapped.
\<close>

theorem detect_column_header_counterexample:
  "list_all email_prefix_match
     (take 5 (dropna (column_cells
        (from_rows [''phone'']
           [[(''phone'', Val ''a@b.com'')], [(''phone'', Val ''c.d@e.org'')],
            [(''phone'', Val ''x_y@z.co.uk'')], [(''phone'', Val ''q@r.my'')],
            [(''phone'', Val ''s@t.io'')]]) ''phone''))) \<and>
   mapped_to (detect_column
        (from_rows [''phone'']
           [[(''phone'', Val ''a@b.com'')], [(''phone'', Val ''c.d@e.org'')],
            [(''phone'', Val ''x_y@z.co.uk'')], [(''phone'', Val ''q@r.my'')],
            [(''phone'', Val ''s@t.io'')]]) ''phone'') = Some ''phone'' \<and>
   confidence (detect_column
        (from_rows [''phone'']
           [[(''phone'', Val ''a@b.com'')], [(''phone'', Val ''c.d@e.org'')],
            [(''phone'', Val ''x_y@z.co.uk'')], [(''phone'', Val ''q@r.my'')],
            [(''phone'', Val ''s@t.io'')]]) ''phone'') = 0.95 \<and>
   \<not> header_matches_keyword (py_strip (py_lower ''xyz'')) \<and>
   at_least_60_percent (length (filter email_prefix_match [])) (length ([] :: string list)) \<and>
   mapped_to (detect_column (from_rows [''xyz''] [[(''xyz'', NaN)]]) ''xyz'') = None"
  by code_simp


section \<open>Properties of the conversion to contact records\<close>

lemma std_columns_fold_distinct:
  "distinct (map fst acc) \<Longrightarrow>
   distinct (map fst (foldl (\<lambda>acc (orig, std).
      if truthy std then AList.update (the std) orig acc else acc) acc m))"
  by (induction m arbitrary: acc) (auto simp: distinct_update split: prod.splits)

lemma std_columns_distinct: "distinct (map fst (std_columns m))"
  unfolding std_columns_def by (rule std_columns_fold_distinct) simp

lemma map_of_fold_update:
  "distinct (map fst xs) \<Longrightarrow>
   map_of (foldl (\<lambda>contact (k, orig). AList.update k (g orig) contact) acc xs) field =
     (case map_of xs field of Some orig \<Rightarrow> Some (g orig) | None \<Rightarrow> map_of acc field)"
proof (induction xs arbitrary: acc)
  case Nil
  then show ?case by simp
next
  case (Cons x xs)
  obtain k orig where x: "x = (k, orig)" by (cases x)
  from Cons.prems x have k: "map_of xs k = None" and d: "distinct (map fst xs)"
    by (auto simp: map_of_eq_None_iff)
  show ?case
    using Cons.IH [OF d, of "AList.update k (g orig) acc"] k
    by (auto simp: x update_conv' split: option.splits)
qed

lemma contact_has_iff:
  "contact_has (make_contact (std_columns m) r) field = has_text (mapped_cell m r field)"
  unfolding contact_has_def make_contact_def mapped_cell_def has_text_def
  by (simp add: map_of_fold_update [OF std_columns_distinct] split: option.splits cell.splits)

lemma contacts_loop_filter:
  "contacts_loop (std_columns m) rs acc =
     acc @ map (\<lambda>(idx, r). make_contact (std_columns m) r)
       (filter (\<lambda>(idx, r). has_text (mapped_cell m r ''name'') \<or>
                           has_text (mapped_cell m r ''phone'')) rs)"
proof (induction rs arbitrary: acc)
  case Nil
  then show ?case by simp
next
  case (Cons x rs)
  obtain idx r where x: "x = (idx, r)" by (cases x)
  show ?case
    by (simp add: x Let_def contact_has_iff Cons.IH)
qed

text \<open>
  On the frame it is given, the conversion retains, in order, exactly the rows whose name
  cell or phone cell, looked up under the original column name that the mapping assigns
  to the field, is present and not the empty text.
\<close>

lemma to_contact_list_filter:
  "to_contact_list df m =
     map (\<lambda>(idx, r). make_contact (std_columns m) r)
       (filter (\<lambda>(idx, r). has_text (mapped_cell m r ''name'') \<or>
                           has_text (mapped_cell m r ''phone''))
          (df_rows df))"
  by (simp add: to_contact_list_def contacts_loop_filter)

text \<open>
  C8 fails in the processing pipeline. A one-row dataset with the headers "Name" and
  "Contact No", mapped to name and phone, is cleaned into a frame whose columns are
  called name and phone; the conversion then looks the cells up under the original
  headers, finds nothing, and drops the row although its name and phone are present:
  no contact, one failed. With deduplication requested the same request ends in a
  KeyError for "Contact No". The same data under the headers "name" and "phone" is
  retained.
\<close>

theorem process_spreadsheet_drops_renamed_rows:
  "clean_data
     (from_rows [''Name'', ''Contact No'']
        [[(''Name'', Val ''Ali''), (''Contact No'', Val ''012-345 6789'')]])
     [(''Name'', Some ''name''), (''Contact No'', Some ''phone'')] True =
   \<lparr>df_columns = [''name'', ''phone''],
    df_rows = [(0, [(''name'', Val ''Ali''), (''phone'', Val ''+60 12-345 6789'')])]\<rparr> \<and>
   process_spreadsheet
     (from_rows [''Name'', ''Contact No'']
        [[(''Name'', Val ''Ali''), (''Contact No'', Val ''012-345 6789'')]])
     [(''Name'', Some ''name''), (''Contact No'', Some ''phone'')] True False =
   Inr \<lparr>total_processed = 1, successful = 0, failed = 1, duplicates_removed = 0,
        contacts = [], duplicate_groups = []\<rparr> \<and>
   process_spreadsheet
     (from_rows [''Name'', ''Contact No'']
        [[(''Name'', Val ''Ali''), (''Contact No'', Val ''012-345 6789'')]])
     [(''Name'', Some ''name''), (''Contact No'', Some ''phone'')] True True =
   Inl (KeyError ''Contact No'') \<and>
   process_spreadsheet
     (from_rows [''name'', ''phone'']
        [[(''name'', Val ''Ali''), (''phone'', Val ''012-345 6789'')]])
     [(''name'', Some ''name''), (''phone'', Some ''phone'')] True False =
   Inr \<lparr>total_processed = 1, successful = 1, failed = 0, duplicates_removed = 0,
        contacts = [[(''name'', Some ''Ali''), (''phone'', Some ''+60 12-345 6789'')]],
        duplicate_groups = []\<rparr>"
  by code_simp


section \<open>Properties of the deduplicator and of the quality report\<close>




lemma phone_step_cases:
  assumes "phone_step std (d, cs) = Inr (d', cs')"
  shows "(map_of std ''phone'' = None \<and> d' = d \<and> cs' = cs) \<or>
     (\<exists>c. map_of std ''phone'' = Some c \<and> c \<in> set (df_columns d) \<and>
          d' = assign_column ''_phone_normalized'' (\<lambda>r. Val (phone_key (cell_at r c))) d \<and>
          cs' = cs @ [''_phone_normalized''])"
  using assms
  by (auto simp: phone_step_def add_key_column_def bind_err_def split: option.splits if_splits)

lemma email_step_cases:
  assumes "email_step std (d, cs) = Inr (d', cs')"
  shows "(map_of std ''email'' = None \<and> d' = d \<and> cs' = cs) \<or>
     (\<exists>c. map_of std ''email'' = Some c \<and> c \<in> set (df_columns d) \<and>
          d' = assign_column ''_email_normalized'' (\<lambda>r. Val (text_key (cell_at r c))) d \<and>
          cs' = cs @ [''_email_normalized''])"
  using assms
  by (auto simp: email_step_def add_key_column_def bind_err_def split: option.splits if_splits)

lemma name_step_cases:
  assumes "name_step std (d, cs) = Inr (d', cs')"
  shows "((map_of std ''name'' = None \<or> cs \<noteq> []) \<and> d' = d \<and> cs' = cs) \<or>
     (\<exists>c. map_of std ''name'' = Some c \<and> cs = [] \<and> c \<in> set (df_columns d) \<and>
          d' = assign_column ''_name_normalized'' (\<lambda>r. Val (text_key (cell_at r c))) d \<and>
          cs' = [''_name_normalized''])"
  using assms
  by (auto simp: name_step_def add_key_column_def bind_err_def split: option.splits if_splits)












lemma drop_temp_columns_columns:
  "df_columns (drop_temp_columns d) = filter (\<lambda>c. c \<notin> set TEMP_COLUMNS) (df_columns d)"
proof -
  define g where "g = (\<lambda>c x. if c \<in> set (df_columns x) then drop_column c x else x)"
  have step: "df_columns (g c x) = removeAll c (df_columns x)" for c x
    by (simp add: g_def drop_column_def)
  have "drop_temp_columns d = g ''_name_normalized'' (g ''_email_normalized'' (g ''_phone_normalized'' d))"
    by (simp add: drop_temp_columns_def TEMP_COLUMNS_def g_def)
  then have "df_columns (drop_temp_columns d) =
      removeAll ''_name_normalized'' (removeAll ''_email_normalized''
        (removeAll ''_phone_normalized'' (df_columns d)))"
    by (simp only: step)
  also have "\<dots> = filter (\<lambda>c. c \<notin> set TEMP_COLUMNS) (df_columns d)"
    by (auto simp: TEMP_COLUMNS_def removeAll_filter_not_eq intro!: filter_cong)
  finally show ?thesis .
qed




lemma deduplicate_unfold:
  assumes "deduplicate df m = Inr (out, n, gs)" and "\<not> df_empty df"
  shows "\<exists>d1 c1 d2 c2 d3 c3.
     phone_step (std_columns m) (df, []) = Inr (d1, c1) \<and>
     email_step (std_columns m) (d1, c1) = Inr (d2, c2) \<and>
     name_step (std_columns m) (d2, c2) = Inr (d3, c3) \<and>
     (c3 = [] \<longrightarrow> out = d3 \<and> n = 0 \<and> gs = []) \<and>
     (c3 \<noteq> [] \<longrightarrow>
        out = drop_temp_columns
          (d3\<lparr>df_rows := drop_duplicates (\<lambda>r. map (cell_at r) c3) [] (df_rows d3)\<rparr>) \<and>
        n = int (length (df_rows d3)) - int (length (df_rows out)) \<and>
        gs = take 50 (concat (map (find_groups d3) c3)))"
  using assms
  by (auto simp: deduplicate_def bind_err_def Let_def split: sum.splits prod.splits if_splits)

lemma key_steps_shapes:
  assumes "phone_step std (df, []) = Inr (d1, c1)"
    and "email_step std (d1, c1) = Inr (d2, c2)"
    and "name_step std (d2, c2) = Inr (d3, c3)"
  shows
   "(map_of std ''phone'' = None \<and> map_of std ''email'' = None \<and> map_of std ''name'' = None \<and>
       d3 = df \<and> c3 = []) \<or>
    (\<exists>nc. map_of std ''phone'' = None \<and> map_of std ''email'' = None \<and>
       map_of std ''name'' = Some nc \<and> nc \<in> set (df_columns df) \<and>
       d3 = assign_column ''_name_normalized'' (\<lambda>r. Val (text_key (cell_at r nc))) df \<and>
       c3 = [''_name_normalized'']) \<or>
    (\<exists>pc. map_of std ''phone'' = Some pc \<and> map_of std ''email'' = None \<and>
       pc \<in> set (df_columns df) \<and>
       d3 = assign_column ''_phone_normalized'' (\<lambda>r. Val (phone_key (cell_at r pc))) df \<and>
       c3 = [''_phone_normalized'']) \<or>
    (\<exists>ec. map_of std ''phone'' = None \<and> map_of std ''email'' = Some ec \<and>
       ec \<in> set (df_columns df) \<and>
       d3 = assign_column ''_email_normalized'' (\<lambda>r. Val (text_key (cell_at r ec))) df \<and>
       c3 = [''_email_normalized'']) \<or>
    (\<exists>pc ec. map_of std ''phone'' = Some pc \<and> map_of std ''email'' = Some ec \<and>
       pc \<in> set (df_columns df) \<and>
       d3 = assign_column ''_email_normalized'' (\<lambda>r. Val (text_key (cell_at r ec)))
              (assign_column ''_phone_normalized'' (\<lambda>r. Val (phone_key (cell_at r pc))) df) \<and>
       c3 = [''_phone_normalized'', ''_email_normalized''])"
  using phone_step_cases [OF assms(1)] email_step_cases [OF assms(2)] name_step_cases [OF assms(3)]
  by (elim disjE exE conjE) simp_all










lemma key_steps_columns:
  assumes "phone_step std (df, []) = Inr (d1, c1)"
    and "email_step std (d1, c1) = Inr (d2, c2)"
    and "name_step std (d2, c2) = Inr (d3, c3)"
    and "list_all (\<lambda>t. t \<notin> set (df_columns df)) TEMP_COLUMNS"
  shows "df_columns d3 = df_columns df @ c3 \<and> set c3 \<subseteq> set TEMP_COLUMNS"
  using key_steps_shapes [OF assms(1-3)] assms(4)
  by (auto simp: assign_column_def TEMP_COLUMNS_def)



















text \<open>
  C10, as the code has it: when no column of the input dataset is called like one of the
  three temporary key columns, the returned dataset has exactly the input's columns, in
  the same order, and so none of the temporary columns.
\<close>

theorem deduplicate_columns_preserved:
  assumes ok: "deduplicate df m = Inr (out, n, gs)"
    and tf: "list_all (\<lambda>t. t \<notin> set (df_columns df)) TEMP_COLUMNS"
  shows "df_columns out = df_columns df \<and> list_all (\<lambda>t. t \<notin> set (df_columns out)) TEMP_COLUMNS"
proof -
  have "df_columns out = df_columns df"
  proof (cases "df_empty df")
    case True
    with ok show ?thesis by (simp add: deduplicate_def)
  next
    case False
    from deduplicate_unfold [OF ok False] obtain d1 c1 d2 c2 d3 c3 where
      s1: "phone_step (std_columns m) (df, []) = Inr (d1, c1)" and
      s2: "email_step (std_columns m) (d1, c1) = Inr (d2, c2)" and
      s3: "name_step (std_columns m) (d2, c2) = Inr (d3, c3)" and
      none: "c3 = [] \<longrightarrow> out = d3 \<and> n = 0 \<and> gs = []" and
      some: "c3 \<noteq> [] \<longrightarrow>
          out = drop_temp_columns
            (d3\<lparr>df_rows := drop_duplicates (\<lambda>r. map (cell_at r) c3) [] (df_rows d3)\<rparr>) \<and>
          n = int (length (df_rows d3)) - int (length (df_rows out)) \<and>
          gs = take 50 (concat (map (find_groups d3) c3))"
      by blast
    from key_steps_columns [OF s1 s2 s3 tf] have
      cols: "df_columns d3 = df_columns df @ c3" and sub: "set c3 \<subseteq> set TEMP_COLUMNS"
      by simp_all
    have keep: "filter (\<lambda>c. c \<notin> set TEMP_COLUMNS) (df_columns df) = df_columns df"
      using tf by (auto simp: list_all_iff filter_id_conv)
    have gone: "filter (\<lambda>c. c \<notin> set TEMP_COLUMNS) c3 = []"
      using sub by (auto simp: filter_empty_conv)
    show ?thesis
    proof (cases "c3 = []")
      case True
      with none cols show ?thesis by simp
    next
      case False
      with some have "df_columns out = filter (\<lambda>c. c \<notin> set TEMP_COLUMNS) (df_columns d3)"
        by (simp add: drop_temp_columns_columns)
      then show ?thesis
        by (simp add: cols keep gone)
    qed
  qed
  with tf show ?thesis by simp
qed

text \<open>
  C10 on the three-column dataset: the returned columns are the input's.
\<close>

theorem deduplicate_columns_preserved_witness:
  "list_all (\<lambda>t. t \<notin> set (df_columns contact_sheet)) TEMP_COLUMNS \<and>
   (case deduplicate contact_sheet contact_mapping of
      Inr (out, n, gs) \<Rightarrow> df_columns out | Inl e \<Rightarrow> []) = [''name'', ''phone'', ''email''] \<and>
   df_columns contact_sheet = [''name'', ''phone'', ''email'']"
proof -
  have tf: "list_all (\<lambda>t. t \<notin> set (df_columns contact_sheet)) TEMP_COLUMNS"
    by code_simp
  have c: "df_columns contact_sheet = [''name'', ''phone'', ''email'']"
    by code_simp
  obtain out n gs where ok: "deduplicate contact_sheet contact_mapping = Inr (out, n, gs)"
  proof -
    have "case deduplicate contact_sheet contact_mapping of Inr x \<Rightarrow> True | Inl e \<Rightarrow> False"
      by code_simp
    then show ?thesis
      using that by (cases "deduplicate contact_sheet contact_mapping") auto
  qed
  from deduplicate_columns_preserved [OF ok tf] tf c ok show ?thesis
    by simp
qed

text \<open>
  C10 as stated fails: an input column called \<^verbatim>\<open>_name_normalized\<close> is removed by the final
  clean-up, although only the phone key was built.
\<close>

theorem deduplicate_columns_counterexample:
  "deduplicate
     (from_rows [''phone'', ''_name_normalized'']
        [[(''phone'', Val ''012-345 6789''), (''_name_normalized'', Val ''x'')]])
     [(''phone'', Some ''phone'')] =
   Inr (from_rows [''phone''] [[(''phone'', Val ''012-345 6789'')]], 0, [])"
  by code_simp

end
